theory Spec2Isabelle
  imports Complex_Main
begin

section \<open>Python values used by the services\<close>

text \<open>
  The services compare a \<^verbatim>\<open>str\<close> with a \<^verbatim>\<open>list\<close>, test values for truthiness and
  slice lists from a negative index. These few pieces of Python are written out once.
  A \<^verbatim>\<open>str\<close> and a \<^verbatim>\<open>list\<close> are different constructors of \<open>pyval\<close>, so Python's
  \<^verbatim>\<open>==\<close> between them is the constructor-wise equality of the datatype: never true.
\<close>

datatype pyval = PStr string | PList "pyval list"

datatype error = Exception

text \<open>\<^verbatim>\<open>xs[a:]\<close> for an integer \<open>a\<close>: a negative start counts from the end and is clipped at 0.\<close>

definition py_slice_from :: "int \<Rightarrow> 'a list \<Rightarrow> 'a list" where
  "py_slice_from a xs =
     (if a < 0 then drop (nat (max 0 (int (length xs) + a))) xs else drop (nat a) xs)"

text \<open>\<^verbatim>\<open>xs[i:j]\<close> for \<open>0 \<le> i \<le> j\<close>.\<close>

definition py_slice :: "nat \<Rightarrow> nat \<Rightarrow> 'a list \<Rightarrow> 'a list" where
  "py_slice i j xs = take (j - i) (drop i xs)"

text \<open>
  \<^verbatim>\<open>random.choice(seq)\<close> on a non-empty sequence: the element at a random index below
  the length. The random number is an input of the model.
\<close>

definition random_choice :: "nat \<Rightarrow> 'a list \<Rightarrow> 'a" where
  "random_choice r xs = xs ! (r mod length xs)"

section \<open>SignLanguageRecognizer (ai\_services/sign\_recognition.py)\<close>

record recognizer =
  is_model_ready :: bool
  common_phrases :: "(string \<times> string list) list"
  sequence_buffer :: "string list"
  max_sequence_length :: int

definition asl_alphabet :: "(nat \<times> string) list" where
  "asl_alphabet =
     [(0, ''A''), (1, ''B''), (2, ''C''), (3, ''D''), (4, ''E''), (5, ''F''), (6, ''G''),
      (7, ''H''), (8, ''I''), (9, ''J''), (10, ''K''), (11, ''L''), (12, ''M''), (13, ''N''),
      (14, ''O''), (15, ''P''), (16, ''Q''), (17, ''R''), (18, ''S''), (19, ''T''),
      (20, ''U''), (21, ''V''), (22, ''W''), (23, ''X''), (24, ''Y''), (25, ''Z''),
      (26, ''SPACE''), (27, ''DELETE''), (28, ''NOTHING'')]"

text \<open>The dictionary of phrases, in the insertion order that the iteration follows.\<close>

definition init_common_phrases :: "(string \<times> string list) list" where
  "init_common_phrases =
     [(''HELLO'', [''H'', ''E'', ''L'', ''L'', ''O'']),
      (''THANK YOU'', [''T'', ''H'', ''A'', ''N'', ''K'', '' '', ''Y'', ''O'', ''U'']),
      (''YES'', [''Y'', ''E'', ''S'']),
      (''NO'', [''N'', ''O'']),
      (''PLEASE'', [''P'', ''L'', ''E'', ''A'', ''S'', ''E'']),
      (''SORRY'', [''S'', ''O'', ''R'', ''R'', ''Y'']),
      (''GOOD'', [''G'', ''O'', ''O'', ''D'']),
      (''BAD'', [''B'', ''A'', ''D'']),
      (''HELP'', [''H'', ''E'', ''L'', ''P'']),
      (''WATER'', [''W'', ''A'', ''T'', ''E'', ''R'']),
      (''FOOD'', [''F'', ''O'', ''O'', ''D'']),
      (''HOME'', [''H'', ''O'', ''M'', ''E''])]"

text \<open>
  \<^verbatim>\<open>__init__\<close>: the model is ready when \<^verbatim>\<open>load_model\<close> found the model file, which is the
  argument here.
\<close>

definition init_recognizer :: "bool \<Rightarrow> recognizer" where
  "init_recognizer model_loaded =
     \<lparr>is_model_ready = model_loaded, common_phrases = init_common_phrases,
      sequence_buffer = [], max_sequence_length = 10\<rparr>"

text \<open>
  What one call of \<^verbatim>\<open>recognize\<close> meets outside the recognizer: whether
  \<^verbatim>\<open>extract_hand_features\<close> found a hand, whether \<^verbatim>\<open>preprocess_image_for_asl\<close>
  returned an array, what \<^verbatim>\<open>model.predict\<close> gave (the arg-max class and its
  probability, or an exception), and the random number of \<^verbatim>\<open>simulate_prediction\<close>.
  A probability is a finite float, hence a rational number.
\<close>

record frame =
  hand_found :: bool
  preprocessed :: bool
  prediction :: "error + (nat \<times> rat)"
  rand :: nat

definition simulated_signs :: "string list" where
  "simulated_signs =
     [''HELLO'', ''THANK YOU'', ''YES'', ''NO'', ''PLEASE'', ''SORRY'', ''GOOD'', ''BAD'',
      ''HELP'']"

definition simulate_prediction :: "nat \<Rightarrow> string" where
  "simulate_prediction r = random_choice r simulated_signs"

text \<open>
  The literal \<^verbatim>\<open>0.7\<close>. The probabilities are 32-bit floats, and no 32-bit float lies
  between 7/10 and the float that the literal denotes, at either precision, so the
  test \<^verbatim>\<open>confidence > 0.7\<close> on them is the comparison with 7/10.
\<close>

definition confidence_threshold :: rat where
  "confidence_threshold = 7 / 10"

definition predict_sign :: "frame \<Rightarrow> recognizer \<Rightarrow> string option" where
  "predict_sign f r =
     (if \<not> is_model_ready r then Some (simulate_prediction (rand f))
      else if \<not> preprocessed f then None
      else case prediction f of
             Inl e \<Rightarrow> Some (simulate_prediction (rand f))
           | Inr (predicted_class, confidence) \<Rightarrow>
               if confidence > confidence_threshold
               then Some (case map_of asl_alphabet predicted_class of
                            Some s \<Rightarrow> s | None \<Rightarrow> ''UNKNOWN'')
               else None)"

definition update_sequence_buffer :: "string \<Rightarrow> recognizer \<Rightarrow> recognizer" where
  "update_sequence_buffer sign r =
     (let buf = sequence_buffer r @ [sign]
      in if int (length buf) > max_sequence_length r
         then r\<lparr>sequence_buffer := py_slice_from (- max_sequence_length r) buf\<rparr>
         else r\<lparr>sequence_buffer := buf\<rparr>)"

text \<open>
  \<^verbatim>\<open>sequence_matches_pattern(sequence, pattern)\<close> is called with the joined buffer, a
  \<^verbatim>\<open>str\<close>, and a pattern of the dictionary, a \<^verbatim>\<open>list\<close> of one-symbol strings. The slice
  of the sequence is a \<^verbatim>\<open>str\<close> again and is compared with the list by \<^verbatim>\<open>==\<close>.
\<close>

definition sequence_matches_pattern :: "string \<Rightarrow> string list \<Rightarrow> bool" where
  "sequence_matches_pattern sequence pattern =
     (if length sequence < length pattern then False
      else list_ex
             (\<lambda>i. PStr (py_slice i (i + length pattern) sequence) = PList (map PStr pattern))
             [0 ..< length sequence - length pattern + 1])"

fun first_matching_phrase :: "string \<Rightarrow> (string \<times> string list) list \<Rightarrow> string option" where
  "first_matching_phrase sequence_str [] = None"
| "first_matching_phrase sequence_str ((phrase, pattern) # rest) =
     (if sequence_matches_pattern sequence_str pattern then Some phrase
      else first_matching_phrase sequence_str rest)"

definition recognize_phrase :: "recognizer \<Rightarrow> string option \<times> recognizer" where
  "recognize_phrase r =
     (if length (sequence_buffer r) < 3 then (None, r)
      else case first_matching_phrase (concat (sequence_buffer r)) (common_phrases r) of
             Some phrase \<Rightarrow> (Some phrase, r\<lparr>sequence_buffer := []\<rparr>)
           | None \<Rightarrow> (None, r))"

text \<open>
  \<^verbatim>\<open>recognize\<close>: a sign that is absent, empty or \<^verbatim>\<open>'NOTHING'\<close> gives no output and does
  not touch the buffer; otherwise the phrase if one was recognized (and is a non-empty
  name), else the sign itself.
\<close>

definition recognize :: "frame \<Rightarrow> recognizer \<Rightarrow> string option \<times> recognizer" where
  "recognize f r =
     (if hand_found f then
        (case predict_sign f r of
           None \<Rightarrow> (None, r)
         | Some sign \<Rightarrow>
             if sign \<noteq> [] \<and> sign \<noteq> ''NOTHING'' then
               (case recognize_phrase (update_sequence_buffer sign r) of
                  (Some phrase, r') \<Rightarrow> if phrase \<noteq> [] then (Some phrase, r') else (Some sign, r')
                | (None, r') \<Rightarrow> (Some sign, r'))
             else (None, r))
      else (None, r))"

text \<open>A run of \<^verbatim>\<open>recognize\<close> over successive frames, with the outputs in order.\<close>

fun recognize_all :: "frame list \<Rightarrow> recognizer \<Rightarrow> string option list \<times> recognizer" where
  "recognize_all [] r = ([], r)"
| "recognize_all (f # fs) r =
     (case recognize f r of (out, r') \<Rightarrow>
        (case recognize_all fs r' of (outs, r'') \<Rightarrow> (out # outs, r'')))"

text \<open>A frame on which the loaded model predicts the given class with probability 0.875.\<close>

definition clear_frame :: "nat \<Rightarrow> frame" where
  "clear_frame c = \<lparr>hand_found = True, preprocessed = True, prediction = Inr (c, 7 / 8), rand = 0\<rparr>"

section \<open>VoiceRecognizer (ai\_services/voice\_recognition.py)\<close>

text \<open>
  Transcribed text may hold any Unicode character, so it is a list of code points, which
  is what a Python \<^verbatim>\<open>str\<close> is. Language codes and identifiers stay \<open>string\<close>s.
\<close>

type_synonym ustr = "nat list"

definition ascii :: "string \<Rightarrow> ustr" where
  "ascii s = map of_char s"

text \<open>The sample phrases of \<^verbatim>\<open>simulate_transcription\<close>, one list per language.\<close>

definition phrases_en :: "ustr list" where
  "phrases_en =
     [ascii ''Hello everyone, how are you doing?'',
      ascii ''Thank you for joining the meeting'',
      ascii ''Can you hear me clearly?'',
      ascii ''Yes, I can hear you perfectly'',
      ascii (''Let'' @ [CHR 0x27] @ ''s discuss the project updates''),
      ascii ''I agree with your proposal'',
      ascii ''That sounds like a great idea'',
      ascii ''Could you please repeat that?'',
      ascii (''I'' @ [CHR 0x27] @ ''m having trouble with my connection''),
      ascii ''The presentation looks good'']"

definition phrases_ta :: "ustr list" where
  "phrases_ta =
     [[2997, 2979, 2965, 3021, 2965, 2990, 3021, 32, 2949, 2985, 3016, 2997, 2992, 3009,
       2965, 3021, 2965, 3009, 2990, 3021],
      [2965, 3010, 2975, 3021, 2975, 2980, 3021, 2980, 3007, 2994, 3021, 32, 2970, 3015,
       2992, 3021, 2984, 3021, 2980, 2980, 2993, 3021, 2965, 3009, 32, 2984, 2985,
       3021, 2993, 3007],
      [2984, 3008, 2969, 3021, 2965, 2995, 3021, 32, 2958, 2985, 3021, 2985, 3016, 32,
       2965, 3015, 2975, 3021, 2965, 32, 2990, 3009, 2975, 3007, 2965, 3007, 2993,
       2980, 3006, 63],
      [2950, 2990, 3021, 44, 32, 2984, 3006, 2985, 3021, 32, 2953, 2969, 3021, 2965, 2995,
       3016, 32, 2980, 3014, 2995, 3007, 2997, 3006, 2965, 32, 2965, 3015, 2975,
       3021, 2965, 3007, 2993, 3015, 2985, 3021]]"

definition phrases_ml :: "ustr list" where
  "phrases_ml =
     [[3385, 3378, 3403, 32, 3342, 3378, 3405, 3378, 3390, 3381, 3452, 3349, 3405, 3349,
       3393, 3330],
      [3374, 3392, 3377, 3405, 3377, 3391, 3330, 3351, 3391, 3453, 32, 3354, 3399, 3452,
       3368, 3405, 3368, 3364, 3391, 3368, 3405, 32, 3368, 3368, 3405, 3366, 3391],
      [3368, 3391, 3353, 3405, 3353, 3454, 32, 3342, 3368, 3405, 3368, 3398, 32, 3349,
       3399, 3454, 3349, 3405, 3349, 3390, 3451, 32, 3349, 3380, 3391, 3375, 3393,
       3374, 3403, 63],
      [3333, 3364, 3398, 44, 32, 3358, 3390, 3451, 32, 3368, 3391, 3353, 3405, 3353, 3379,
       3398, 32, 3381, 3405, 3375, 3349, 3405, 3364, 3374, 3390, 3375, 3391, 32,
       3349, 3399, 3454, 3349, 3405, 3349, 3393, 3368, 3405, 3368, 3393]]"

definition phrases_te :: "ustr list" where
  "phrases_te =
     [[3129, 3122, 3147, 32, 3077, 3074, 3110, 3120, 3135, 3093, 3136],
      [3118, 3136, 3103, 3135, 3074, 3095, 3149, 8204, 3122, 3147, 32, 3098, 3143, 3120,
       3135, 3112, 3074, 3110, 3137, 3093, 3137, 32, 3111, 3112, 3149, 3119, 3125,
       3134, 3110, 3134, 3122, 3137],
      [3118, 3136, 3120, 3137, 32, 3112, 3112, 3149, 3112, 3137, 32, 3125, 3135, 3112,
       3095, 3122, 3120, 3134, 63],
      [3077, 3125, 3137, 3112, 3137, 44, 32, 3112, 3143, 3112, 3137, 32, 3118, 3135, 3118,
       3149, 3118, 3122, 3149, 3112, 3135, 32, 3128, 3149, 3114, 3127, 3149, 3103,
       3074, 3095, 3134, 32, 3125, 3135, 3074, 3103, 3137, 3112, 3149, 3112, 3134,
       3112, 3137]]"

definition phrases :: "(string \<times> ustr list) list" where
  "phrases =
     [(''en'', phrases_en), (''ta'', phrases_ta), (''ml'', phrases_ml), (''te'', phrases_te)]"

text \<open>\<^verbatim>\<open>phrases.get(language, phrases["en"])\<close>\<close>

definition language_phrases :: "string \<Rightarrow> ustr list" where
  "language_phrases language =
     (case map_of phrases language of Some ps \<Rightarrow> ps | None \<Rightarrow> phrases_en)"

definition simulate_transcription :: "nat \<Rightarrow> string \<Rightarrow> ustr" where
  "simulate_transcription r language = random_choice r (language_phrases language)"

text \<open>
  The two recognition backends are outside the model: \<^verbatim>\<open>transcribe_with_google\<close> and
  \<^verbatim>\<open>transcribe_with_vosk\<close> each return a text, return \<^verbatim>\<open>None\<close>, or raise into
  \<^verbatim>\<open>transcribe\<close>. What each would do on the given audio and language is an input, and
  so is the random number of the simulation. \<^verbatim>\<open>transcribe\<close> returns its result
  together with the backends it called, in call order.
\<close>

datatype tier = Google | Vosk | Simulation

record audio_event =
  google_outcome :: "error + ustr option"
  vosk_outcome :: "error + ustr option"
  choice :: nat

text \<open>\<^verbatim>\<open>not text\<close>: the text is \<^verbatim>\<open>None\<close> or the empty string.\<close>

definition falsy_text :: "ustr option \<Rightarrow> bool" where
  "falsy_text t = (case t of None \<Rightarrow> True | Some s \<Rightarrow> s = [])"

text \<open>A backend gave no text: it raised, returned \<^verbatim>\<open>None\<close>, or returned the empty string.\<close>

definition no_text :: "error + ustr option \<Rightarrow> bool" where
  "no_text outcome = (case outcome of Inl e \<Rightarrow> True | Inr t \<Rightarrow> falsy_text t)"

definition transcribe :: "audio_event \<Rightarrow> string \<Rightarrow> ustr option \<times> tier list" where
  "transcribe ev language =
     (case google_outcome ev of
        Inl e \<Rightarrow> (Some (simulate_transcription (choice ev) language), [Google, Simulation])
      | Inr text \<Rightarrow>
          if falsy_text text then
            (case vosk_outcome ev of
               Inl e \<Rightarrow>
                 (Some (simulate_transcription (choice ev) language), [Google, Vosk, Simulation])
             | Inr text' \<Rightarrow>
                 if falsy_text text' then
                   (Some (simulate_transcription (choice ev) language),
                    [Google, Vosk, Simulation])
                 else (text', [Google, Vosk]))
          else (text, [Google]))"

section \<open>CaptionService (ai\_services/caption\_service.py)\<close>

text \<open>
  A caption is a dictionary whose \<^verbatim>\<open>"metadata"\<close> entry refers to a second dictionary.
  The top level is a record; the nested dictionary lives in a store of objects and the
  caption holds its address, so that two captions can share one metadata object.
\<close>

type_synonym addr = nat

datatype mval = MFloat rat | MStr string | MBool bool

type_synonym objects = "addr \<Rightarrow> (string \<rightharpoonup> mval)"

record caption =
  c_id :: string
  c_text :: ustr
  c_type :: string
  c_user_id :: "string option"
  c_user_name :: string
  c_user_photo :: string
  c_language :: string
  c_timestamp :: string
  c_confidence :: rat
  c_metadata :: addr

record caption_service =
  caption_history :: "caption list"
  max_history :: int
  heap :: objects
  next_addr :: addr

definition init_caption_service :: caption_service where
  "init_caption_service =
     \<lparr>caption_history = [], max_history = 100, heap = (\<lambda>a. Map.empty), next_addr = 0\<rparr>"

definition add_to_history :: "caption \<Rightarrow> caption_service \<Rightarrow> caption_service" where
  "add_to_history caption s =
     (let h = caption_history s @ [caption]
      in if int (length h) > max_history s
         then s\<lparr>caption_history := py_slice_from (- max_history s) h\<rparr>
         else s\<lparr>caption_history := h\<rparr>)"

text \<open>The literal \<^verbatim>\<open>0.95\<close> of \<^verbatim>\<open>create_caption\<close>, as the double that it denotes.\<close>

definition simulated_confidence :: rat where
  "simulated_confidence = 4278419646001971 / 4503599627370496"

definition default_user_photo :: string where
  "default_user_photo =
     ''https://images.unsplash.com/photo-1472099645785-5658abf4ff4e?w=40&h=40&fit=crop&crop=face''"

text \<open>\<^verbatim>\<open>x or default\<close> for an optional string.\<close>

definition or_default :: "string option \<Rightarrow> string \<Rightarrow> string" where
  "or_default x d = (case x of None \<Rightarrow> d | Some s \<Rightarrow> if s = [] then d else s)"

text \<open>
  \<^verbatim>\<open>create_caption\<close>; the first two arguments are what \<^verbatim>\<open>uuid.uuid4()\<close> and
  \<^verbatim>\<open>datetime.now()\<close> give at the call. The metadata dictionary is a new object.
\<close>

definition create_caption ::
  "string \<Rightarrow> string \<Rightarrow> ustr \<Rightarrow> string \<Rightarrow> string option \<Rightarrow> string \<Rightarrow> string option \<Rightarrow>
   string option \<Rightarrow> caption_service \<Rightarrow> caption \<times> caption_service" where
  "create_caption uuid now text' type' user_id language user_name user_photo s =
     (let a = next_addr s;
          s1 = s\<lparr>heap := (heap s)(a := [''processing_time'' \<mapsto> MFloat (1 / 2),
                                          ''model_version'' \<mapsto> MStr ''1.0.0'']),
                 next_addr := Suc a\<rparr>;
          caption = \<lparr>c_id = uuid, c_text = text', c_type = type', c_user_id = user_id,
                     c_user_name = or_default user_name ''Unknown User'',
                     c_user_photo = or_default user_photo default_user_photo,
                     c_language = language, c_timestamp = now, c_confidence = simulated_confidence,
                     c_metadata = a\<rparr>
      in (caption, add_to_history caption s1))"

text \<open>\<^verbatim>\<open>get_caption_history(limit)\<close>; the limit may be \<^verbatim>\<open>None\<close>.\<close>

definition get_caption_history :: "int option \<Rightarrow> caption_service \<Rightarrow> caption list" where
  "get_caption_history limit s =
     (case limit of
        None \<Rightarrow> caption_history s
      | Some l \<Rightarrow> if l \<noteq> 0 then py_slice_from (- l) (caption_history s)
                  else caption_history s)"

text \<open>The translation table of \<^verbatim>\<open>simulate_translation\<close>, under its only source language.\<close>

definition translations_en_ta :: "(ustr \<times> ustr) list" where
  "translations_en_ta =
     [(ascii ''Hello everyone'',
       [2997, 2979, 2965, 3021, 2965, 2990, 3021, 32, 2949, 2985, 3016, 2997, 2992, 3009,
        2965, 3021, 2965, 3009, 2990, 3021]),
      (ascii ''Thank you'',
       [2984, 2985, 3021, 2993, 3007]),
      (ascii ''Yes'',
       [2950, 2990, 3021]),
      (ascii ''No'',
       [2951, 2994, 3021, 2994, 3016]),
      (ascii ''Please'',
       [2980, 2991, 2997, 3009, 32, 2970, 3014, 2991, 3021, 2980, 3009]),
      (ascii ''Sorry'',
       [2990, 2985, 3021, 2985, 3007, 2965, 3021, 2965, 2997, 3009, 2990, 3021])]"

definition translations_en_ml :: "(ustr \<times> ustr) list" where
  "translations_en_ml =
     [(ascii ''Hello everyone'',
       [3385, 3378, 3403, 32, 3342, 3378, 3405, 3378, 3390, 3381, 3452, 3349, 3405, 3349,
        3393, 3330]),
      (ascii ''Thank you'',
       [3368, 3368, 3405, 3366, 3391]),
      (ascii ''Yes'',
       [3333, 3364, 3398]),
      (ascii ''No'',
       [3335, 3378, 3405, 3378]),
      (ascii ''Please'',
       [3366, 3375, 3381, 3390, 3375, 3391]),
      (ascii ''Sorry'',
       [3349, 3405, 3383, 3374, 3391, 3349, 3405, 3349, 3363, 3330])]"

definition translations_en_te :: "(ustr \<times> ustr) list" where
  "translations_en_te =
     [(ascii ''Hello everyone'',
       [3129, 3122, 3147, 32, 3077, 3074, 3110, 3120, 3135, 3093, 3136]),
      (ascii ''Thank you'',
       [3111, 3112, 3149, 3119, 3125, 3134, 3110, 3134, 3122, 3137]),
      (ascii ''Yes'',
       [3077, 3125, 3137, 3112, 3137]),
      (ascii ''No'',
       [3093, 3134, 3110, 3137]),
      (ascii ''Please'',
       [3110, 3119, 3098, 3143, 3128, 3135]),
      (ascii ''Sorry'',
       [3093, 3149, 3127, 3118, 3135, 3074, 3098, 3074, 3105, 3135])]"

definition translations_en :: "(string \<times> (ustr \<times> ustr) list) list" where
  "translations_en =
     [(''ta'', translations_en_ta), (''ml'', translations_en_ml), (''te'', translations_en_te)]"

definition simulate_translation :: "ustr \<Rightarrow> string \<Rightarrow> ustr" where
  "simulate_translation text' target_language =
     (case map_of translations_en target_language of
        Some table \<Rightarrow> (case map_of table text' of Some t \<Rightarrow> t | None \<Rightarrow> text')
      | None \<Rightarrow> text')"

text \<open>
  \<^verbatim>\<open>translate_caption\<close>. \<^verbatim>\<open>caption.copy()\<close> makes a new top-level dictionary with the
  same entries, so the copy's \<^verbatim>\<open>"metadata"\<close> is the address of the original's metadata
  object; the two assignments through it write to that object in the store.
\<close>

definition translate_caption ::
  "string \<Rightarrow> string \<Rightarrow> caption \<Rightarrow> string \<Rightarrow> caption_service \<Rightarrow>
   caption option \<times> caption_service" where
  "translate_caption uuid now caption target_language s =
     (let translated_text = simulate_translation (c_text caption) target_language
      in if translated_text \<noteq> [] then
           let translated_caption = caption;
               translated_caption = translated_caption\<lparr>c_id := uuid\<rparr>;
               translated_caption = translated_caption\<lparr>c_text := translated_text\<rparr>;
               translated_caption = translated_caption\<lparr>c_language := target_language\<rparr>;
               translated_caption = translated_caption\<lparr>c_timestamp := now\<rparr>;
               m = c_metadata translated_caption;
               s1 = s\<lparr>heap := (heap s)(m := (heap s m)(''translated'' \<mapsto> MBool True))\<rparr>;
               s2 = s1\<lparr>heap := (heap s1)(m := (heap s1 m)(''original_language'' \<mapsto>
                                                          MStr (c_language caption)))\<rparr>
           in (Some translated_caption, s2)
         else (None, s))"

text \<open>Everything a reader of a caption can see: its entries and its metadata object.\<close>

definition caption_contents :: "caption_service \<Rightarrow> caption \<Rightarrow> caption \<times> (string \<rightharpoonup> mval)" where
  "caption_contents s c = (c, heap s (c_metadata c))"

text \<open>A stored caption: the first caption of a new service, English, with the text "Yes".\<close>

definition stored_yes :: "caption \<times> caption_service" where
  "stored_yes =
     create_caption ''id-1'' ''2024-01-01T10:00:00'' (ascii ''Yes'') ''voice'' (Some ''u1'') ''en''
       None None init_caption_service"

text \<open>Captions that differ in their id and metadata object, to tell positions apart.\<close>

definition numbered :: "nat \<Rightarrow> caption" where
  "numbered i =
     \<lparr>c_id = replicate i (CHR ''x''), c_text = ascii ''Yes'', c_type = ''voice'', c_user_id = None,
      c_user_name = ''Unknown User'', c_user_photo = default_user_photo, c_language = ''en'',
      c_timestamp = ''2024-01-01T10:00:00'', c_confidence = simulated_confidence, c_metadata = i\<rparr>"

section \<open>ConnectionManager (main.py)\<close>

text \<open>
  A WebSocket object is known by its identity. The sockets whose \<^verbatim>\<open>send_text\<close> raises
  are an argument of \<^verbatim>\<open>broadcast_to_room\<close>, which returns the deliveries made, in
  order.
\<close>

type_synonym websocket = nat

text \<open>
  \<^verbatim>\<open>connect\<close> begins with \<^verbatim>\<open>await websocket.accept()\<close>. The method is not under src/:
  it belongs to the \<^verbatim>\<open>WebSocket\<close> class that main.py imports from the web framework,
  whose objects are the only peers the endpoint passes in. Such an object carries a
  connection state. \<^verbatim>\<open>accept\<close> completes the opening handshake of a socket that is
  still connecting and marks it connected; the handshake itself may fail, which is an
  argument here. On a socket that has been accepted or closed before, \<^verbatim>\<open>accept\<close> raises
  \<^verbatim>\<open>RuntimeError\<close>, since the accept message is not allowed in those states.
\<close>

datatype websocket_state = CONNECTING | CONNECTED | DISCONNECTED

type_synonym sockets = "websocket \<Rightarrow> websocket_state"

definition new_sockets :: sockets where
  "new_sockets = (\<lambda>websocket. CONNECTING)"

definition accept :: "bool \<Rightarrow> websocket \<Rightarrow> sockets \<Rightarrow> error + sockets" where
  "accept handshake_ok websocket st =
     (if st websocket = CONNECTING \<and> handshake_ok then Inr (st(websocket := CONNECTED))
      else Inl Exception)"

record connection_manager =
  active_connections :: "websocket list"
  room_connections :: "string \<rightharpoonup> websocket list"

definition init_connection_manager :: connection_manager where
  "init_connection_manager = \<lparr>active_connections = [], room_connections = Map.empty\<rparr>"

text \<open>
  \<^verbatim>\<open>connect\<close> returns the exception that left it, if any, with the sockets and the
  manager as they are after the call. An exception of \<^verbatim>\<open>accept\<close> leaves before either
  list is touched.
\<close>

definition connect ::
  "bool \<Rightarrow> websocket \<Rightarrow> string \<Rightarrow> sockets \<times> connection_manager \<Rightarrow>
   error option \<times> sockets \<times> connection_manager" where
  "connect handshake_ok websocket room_id w =
     (case accept handshake_ok websocket (fst w) of
        Inl e \<Rightarrow> (Some e, w)
      | Inr st \<Rightarrow>
          let m = snd w;
              m1 = m\<lparr>active_connections := active_connections m @ [websocket]\<rparr>;
              m2 = (if room_connections m1 room_id = None
                    then m1\<lparr>room_connections := (room_connections m1)(room_id \<mapsto> [])\<rparr>
                    else m1)
          in (None, st,
              m2\<lparr>room_connections :=
                   (room_connections m2)(room_id \<mapsto> the (room_connections m2 room_id) @ [websocket])\<rparr>))"

definition disconnect :: "websocket \<Rightarrow> string \<Rightarrow> connection_manager \<Rightarrow> connection_manager" where
  "disconnect websocket room_id m =
     (let m1 = (if websocket \<in> set (active_connections m)
                then m\<lparr>active_connections := remove1 websocket (active_connections m)\<rparr>
                else m)
      in case room_connections m1 room_id of
           None \<Rightarrow> m1
         | Some conns \<Rightarrow>
             if websocket \<in> set conns
             then m1\<lparr>room_connections := (room_connections m1)(room_id \<mapsto> remove1 websocket conns)\<rparr>
             else m1)"

text \<open>
  The \<^verbatim>\<open>for\<close> loop of \<^verbatim>\<open>broadcast_to_room\<close> runs over the room's list object itself.
  Python's list iterator keeps an index: each round reads the element at the index if the
  index is below the current length, and moves on by one. \<^verbatim>\<open>remove\<close> in the handler
  deletes the first equal element of that same list while the loop is running.
\<close>

function broadcast_loop ::
  "(websocket \<Rightarrow> bool) \<Rightarrow> string \<Rightarrow> websocket option \<Rightarrow> nat \<Rightarrow> websocket list \<Rightarrow>
   (websocket \<times> string) list \<Rightarrow> websocket list \<times> (websocket \<times> string) list" where
  "broadcast_loop send_raises message exclude_websocket i conns sent =
     (if i < length conns then
        (let connection = conns ! i
         in if Some connection \<noteq> exclude_websocket then
              (if send_raises connection
               then broadcast_loop send_raises message exclude_websocket (Suc i)
                      (remove1 connection conns) sent
               else broadcast_loop send_raises message exclude_websocket (Suc i) conns
                      (sent @ [(connection, message)]))
            else broadcast_loop send_raises message exclude_websocket (Suc i) conns sent)
      else (conns, sent))"
  by pat_completeness auto
termination
  by (relation "measure (\<lambda>(send_raises, message, exclude_websocket, i, conns, sent).
                          length conns - i)")
     (auto simp: length_remove1)

definition broadcast_to_room ::
  "(websocket \<Rightarrow> bool) \<Rightarrow> string \<Rightarrow> string \<Rightarrow> websocket option \<Rightarrow> connection_manager \<Rightarrow>
   connection_manager \<times> (websocket \<times> string) list" where
  "broadcast_to_room send_raises message room_id exclude_websocket m =
     (case room_connections m room_id of
        None \<Rightarrow> (m, [])
      | Some conns \<Rightarrow>
          (case broadcast_loop send_raises message exclude_websocket 0 conns [] of
             (conns', sent) \<Rightarrow>
               (m\<lparr>room_connections := (room_connections m)(room_id \<mapsto> conns')\<rparr>, sent)))"

text \<open>\<^verbatim>\<open>get_room_participants\<close>: the membership query of the API, and the list behind it.\<close>

definition room_members :: "string \<Rightarrow> connection_manager \<Rightarrow> websocket list" where
  "room_members room_id m = (case room_connections m room_id of None \<Rightarrow> [] | Some conns \<Rightarrow> conns)"

definition participant_count :: "string \<Rightarrow> connection_manager \<Rightarrow> nat" where
  "participant_count room_id m =
     (case room_connections m room_id of None \<Rightarrow> 0 | Some conns \<Rightarrow> length conns)"

text \<open>The sockets and the manager after a \<^verbatim>\<open>connect\<close> whose handshake went through.\<close>

definition joined ::
  "websocket \<Rightarrow> string \<Rightarrow> sockets \<times> connection_manager \<Rightarrow> sockets \<times> connection_manager" where
  "joined websocket room_id w = snd (connect True websocket room_id w)"

text \<open>Peers 1, 2 and 3 joined to room r1 in that order; a channel state where one peer is broken.\<close>

definition three_peers :: connection_manager where
  "three_peers =
     snd (joined 3 ''r1'' (joined 2 ''r1'' (joined 1 ''r1'' (new_sockets, init_connection_manager))))"

definition only_raises :: "websocket \<Rightarrow> websocket \<Rightarrow> bool" where
  "only_raises b websocket = (websocket = b)"

section \<open>Slices that keep the last elements\<close>

lemma last_n_append:
  "drop (length (drop (length xs - n) xs @ ys) - n) (drop (length xs - n) xs @ ys) =
   drop (length (xs @ ys) - n) (xs @ ys)"
proof (cases "length xs \<le> n")
  case True
  then show ?thesis by simp
next
  case False
  then have "length ys + length xs - n - (length xs - n) = length ys" by simp
  with False show ?thesis by (simp add: add.commute)
qed

lemma py_slice_from_last:
  assumes "0 < n"
  shows "py_slice_from (- n) xs = drop (length xs - nat n) xs"
proof -
  have "nat (max 0 (int (length xs) + - n)) = length xs - nat n"
    using assms by (cases "int (length xs) \<le> n") (simp_all add: nat_diff_distrib' max_def)
  with assms show ?thesis by (simp add: py_slice_from_def)
qed

section \<open>The sign recognizer\<close>

subsection \<open>The pattern test never succeeds\<close>

lemma sequence_matches_pattern_False: "sequence_matches_pattern sequence pattern = False"
  by (simp add: sequence_matches_pattern_def list_ex_iff)

lemma first_matching_phrase_None: "first_matching_phrase s ps = None"
  by (induction ps) (auto simp: sequence_matches_pattern_False)

lemma recognize_phrase_None: "recognize_phrase r = (None, r)"
  by (simp add: recognize_phrase_def first_matching_phrase_None)

text \<open>
  Claim C1 (phrase match and reset). Feeding H, E, L, L, O, one sign per call, into the
  recognizer with the built-in dictionary should give the phrase HELLO at the fifth call
  and leave the buffer empty. The code does not: \<^verbatim>\<open>sequence_matches_pattern\<close> compares a
  string slice with a list, which is never equal, so no phrase is ever found. The fifth
  call gives the single sign O and the buffer still holds all five signs.
\<close>

theorem hello_not_recognized:
  "recognize_all (map clear_frame [7, 4, 11, 11, 14]) (init_recognizer True) =
     ([Some ''H'', Some ''E'', Some ''L'', Some ''L'', Some ''O''],
      (init_recognizer True)\<lparr>sequence_buffer := [''H'', ''E'', ''L'', ''L'', ''O'']\<rparr>)"
  by (simp add: recognize_def predict_sign_def clear_frame_def init_recognizer_def
      confidence_threshold_def asl_alphabet_def recognize_phrase_None
      update_sequence_buffer_def Let_def)

subsection \<open>The bounded buffer\<close>

lemma update_sequence_buffer_eq:
  "0 < max_sequence_length r \<Longrightarrow>
   sequence_buffer (update_sequence_buffer sign r) =
     drop (length (sequence_buffer r @ [sign]) - nat (max_sequence_length r))
       (sequence_buffer r @ [sign])"
  by (auto simp: update_sequence_buffer_def Let_def py_slice_from_last)

lemma update_sequence_buffer_max:
  "max_sequence_length (update_sequence_buffer sign r) = max_sequence_length r"
  by (simp add: update_sequence_buffer_def Let_def)

lemma fold_update_sequence_buffer:
  "0 < max_sequence_length r \<Longrightarrow> length (sequence_buffer r) \<le> nat (max_sequence_length r) \<Longrightarrow>
   sequence_buffer (fold update_sequence_buffer signs r) =
     drop (length (sequence_buffer r @ signs) - nat (max_sequence_length r))
       (sequence_buffer r @ signs)"
proof (induction signs arbitrary: r)
  case Nil
  then show ?case by simp
next
  case (Cons s signs)
  let ?r = "update_sequence_buffer s r"
  let ?b = "sequence_buffer r"
  let ?n = "nat (max_sequence_length r)"
  have m: "max_sequence_length ?r = max_sequence_length r"
    by (simp add: update_sequence_buffer_max)
  have b: "sequence_buffer ?r = drop (length (?b @ [s]) - ?n) (?b @ [s])"
    using Cons.prems by (simp add: update_sequence_buffer_eq)
  have l: "length (sequence_buffer ?r) \<le> nat (max_sequence_length ?r)"
    unfolding b m using Cons.prems(1) by simp
  have "sequence_buffer (fold update_sequence_buffer (s # signs) r) =
        drop (length (sequence_buffer ?r @ signs) - ?n) (sequence_buffer ?r @ signs)"
    using Cons.IH[of ?r] l Cons.prems(1) by (simp add: m)
  also have "\<dots> = drop (length ((?b @ [s]) @ signs) - ?n) ((?b @ [s]) @ signs)"
    unfolding b by (rule last_n_append)
  finally show ?case by simp
qed

text \<open>
  Claim C7 (buffer bound). With the bound of 10 that \<^verbatim>\<open>__init__\<close> sets, the buffer holds
  at most 10 signs after every call of \<^verbatim>\<open>update_sequence_buffer\<close>, whatever it held
  before. Starting from a buffer within the bound, once more than 10 signs have been
  observed in all, the buffer holds exactly 10: the most recent 10, oldest first.
\<close>

theorem buffer_bound:
  assumes "max_sequence_length r = 10"
  shows "length (sequence_buffer (update_sequence_buffer sign r)) \<le> 10 \<and>
         (length (sequence_buffer r) \<le> 10 \<and> 10 < length (sequence_buffer r @ signs) \<longrightarrow>
            length (sequence_buffer (fold update_sequence_buffer signs r)) = 10 \<and>
            sequence_buffer (fold update_sequence_buffer signs r) =
              drop (length (sequence_buffer r @ signs) - 10) (sequence_buffer r @ signs))"
proof -
  have pos: "0 < max_sequence_length r" using assms by simp
  have one: "length (sequence_buffer (update_sequence_buffer sign r)) \<le> 10"
    using assms by (simp add: update_sequence_buffer_eq[OF pos])
  have many: "sequence_buffer (fold update_sequence_buffer signs r) =
              drop (length (sequence_buffer r @ signs) - 10) (sequence_buffer r @ signs)"
    if "length (sequence_buffer r) \<le> 10"
    using fold_update_sequence_buffer[OF pos, of signs] that assms by simp
  show ?thesis using one many by auto
qed

text \<open>Twelve signs into the new recognizer: the first two are gone.\<close>

theorem buffer_bound_witness:
  "max_sequence_length (init_recognizer True) = 10 \<and>
   length (sequence_buffer (update_sequence_buffer ''A'' (init_recognizer True))) \<le> 10 \<and>
   sequence_buffer (fold update_sequence_buffer
      [''A'', ''B'', ''C'', ''D'', ''E'', ''F'', ''G'', ''H'', ''I'', ''J'', ''K'', ''L'']
      (init_recognizer True)) =
     [''C'', ''D'', ''E'', ''F'', ''G'', ''H'', ''I'', ''J'', ''K'', ''L'']"
  using buffer_bound [of "init_recognizer True" "''A''"
      "[''A'', ''B'', ''C'', ''D'', ''E'', ''F'', ''G'', ''H'', ''I'', ''J'', ''K'', ''L'']"]
  by (simp add: init_recognizer_def)

subsection \<open>A prediction of low confidence\<close>

text \<open>
  Claim C3, as stated: after a prediction whose confidence is below 0.7 the recognizer
  still yields some output from a later tier. It fails: with the model loaded and a top
  prediction of confidence 0.5, \<^verbatim>\<open>recognize\<close> returns nothing.
\<close>

theorem low_confidence_counterexample:
  "(1 / 2 :: rat) < confidence_threshold \<and>
   recognize \<lparr>hand_found = True, preprocessed = True, prediction = Inr (0, 1 / 2), rand = 0\<rparr>
     (init_recognizer True) = (None, init_recognizer True)"
  by (simp add: recognize_def predict_sign_def init_recognizer_def confidence_threshold_def)

text \<open>
  Claim C3, amended. When the model is loaded and its top prediction has a confidence
  that is not above 0.7, \<^verbatim>\<open>predict_sign\<close> returns nothing, and \<^verbatim>\<open>recognize\<close> returns
  nothing and leaves the recognizer as it was: no later tier is tried.
\<close>

theorem low_confidence_absent:
  assumes "is_model_ready r" and "preprocessed f" and "prediction f = Inr (c, confidence)"
    and "confidence \<le> confidence_threshold"
  shows "predict_sign f r = None \<and> recognize f r = (None, r)"
  using assms by (simp add: recognize_def predict_sign_def)

theorem low_confidence_absent_witness:
  "is_model_ready (init_recognizer True) \<and>
   (5 / 8 :: rat) \<le> confidence_threshold \<and>
   predict_sign \<lparr>hand_found = True, preprocessed = True, prediction = Inr (7, 5 / 8), rand = 3\<rparr>
     (init_recognizer True) = None \<and>
   recognize \<lparr>hand_found = True, preprocessed = True, prediction = Inr (7, 5 / 8), rand = 3\<rparr>
     (init_recognizer True) = (None, init_recognizer True)"
  using low_confidence_absent [of "init_recognizer True"
      "\<lparr>hand_found = True, preprocessed = True, prediction = Inr (7, 5 / 8), rand = 3\<rparr>"
      7 "5 / 8"]
  by (simp add: init_recognizer_def confidence_threshold_def)

section \<open>The voice recognizer\<close>

lemma random_choice_mem: "xs \<noteq> [] \<Longrightarrow> random_choice r xs \<in> set xs"
  by (simp add: random_choice_def)

lemma language_phrases_cases:
  "language_phrases language \<in> {phrases_en, phrases_ta, phrases_ml, phrases_te}"
  by (simp add: language_phrases_def phrases_def)

lemma phrases_en_nonempty: "phrases_en \<noteq> [] \<and> [] \<notin> set phrases_en"
  by (simp add: phrases_en_def ascii_def)

lemma phrases_ta_nonempty: "phrases_ta \<noteq> [] \<and> [] \<notin> set phrases_ta"
  by (simp add: phrases_ta_def)

lemma phrases_ml_nonempty: "phrases_ml \<noteq> [] \<and> [] \<notin> set phrases_ml"
  by (simp add: phrases_ml_def)

lemma phrases_te_nonempty: "phrases_te \<noteq> [] \<and> [] \<notin> set phrases_te"
  by (simp add: phrases_te_def)

lemma language_phrases_nonempty:
  "language_phrases language \<noteq> [] \<and> [] \<notin> set (language_phrases language)"
  using language_phrases_cases [of language] phrases_en_nonempty phrases_ta_nonempty
    phrases_ml_nonempty phrases_te_nonempty
  by auto

lemma simulate_transcription_vocabulary:
  "simulate_transcription r language \<in> set (language_phrases language) \<and>
   simulate_transcription r language \<noteq> []"
proof -
  have m: "simulate_transcription r language \<in> set (language_phrases language)"
    unfolding simulate_transcription_def
    using language_phrases_nonempty by (intro random_choice_mem) simp
  moreover have "[] \<notin> set (language_phrases language)"
    using language_phrases_nonempty by simp
  ultimately show ?thesis by metis
qed

text \<open>
  Claim C4 (the placeholder always succeeds). For every audio input and language, when
  neither Google nor Vosk gives a text (each raised, returned nothing, or returned the
  empty string), \<^verbatim>\<open>transcribe\<close> does not return absent: its result is the phrase that
  \<^verbatim>\<open>simulate_transcription\<close> chose, which is a member of the sample phrases selected for
  the language and is not empty.
\<close>

theorem placeholder_always_succeeds:
  assumes "no_text (google_outcome ev)" and "no_text (vosk_outcome ev)"
  shows "fst (transcribe ev language) = Some (simulate_transcription (choice ev) language) \<and>
         simulate_transcription (choice ev) language \<in> set (language_phrases language) \<and>
         simulate_transcription (choice ev) language \<noteq> []"
proof -
  have "fst (transcribe ev language) = Some (simulate_transcription (choice ev) language)"
    using assms by (auto simp: transcribe_def no_text_def split: sum.splits)
  then show ?thesis using simulate_transcription_vocabulary by simp
qed

text \<open>Google returns the empty string, Vosk raises: the third Tamil phrase comes back.\<close>

theorem placeholder_always_succeeds_witness:
  "no_text (Inr (Some [])) \<and> no_text (Inl Exception) \<and>
   fst (transcribe \<lparr>google_outcome = Inr (Some []), vosk_outcome = Inl Exception, choice = 6\<rparr>
          ''ta'') =
     Some [2984, 3008, 2969, 3021, 2965, 2995, 3021, 32, 2958, 2985, 3021, 2985, 3016, 32,
       2965, 3015, 2975, 3021, 2965, 32, 2990, 3009, 2975, 3007, 2965, 3007, 2993,
       2980, 3006, 63]"
  using placeholder_always_succeeds
    [of "\<lparr>google_outcome = Inr (Some []), vosk_outcome = Inl Exception, choice = 6\<rparr>" "''ta''"]
  by (simp add: no_text_def falsy_text_def simulate_transcription_def random_choice_def
      language_phrases_def phrases_def phrases_ta_def)

text \<open>
  Claim C5 (fallback order). When Google returns a non-empty text, \<^verbatim>\<open>transcribe\<close>
  returns exactly that text, and Google is the only backend it called: neither Vosk nor
  the simulation is invoked.
\<close>

theorem fallback_order:
  assumes "google_outcome ev = Inr (Some t)" and "t \<noteq> []"
  shows "transcribe ev language = (Some t, [Google])"
  using assms by (simp add: transcribe_def falsy_text_def)

theorem fallback_order_witness:
  "transcribe \<lparr>google_outcome = Inr (Some (ascii ''hi'')),
      vosk_outcome = Inr (Some (ascii ''hey'')), choice = 0\<rparr> ''en'' =
     (Some (ascii ''hi''), [Google])"
  using fallback_order
    [of "\<lparr>google_outcome = Inr (Some (ascii ''hi'')), vosk_outcome = Inr (Some (ascii ''hey'')),
          choice = 0\<rparr>" "ascii ''hi''" "''en''"]
  by (simp add: ascii_def)

section \<open>The caption service\<close>

subsection \<open>The bounded history\<close>

lemma add_to_history_eq:
  "0 < max_history s \<Longrightarrow>
   caption_history (add_to_history c s) =
     drop (length (caption_history s @ [c]) - nat (max_history s)) (caption_history s @ [c])"
  by (auto simp: add_to_history_def Let_def py_slice_from_last)

lemma add_to_history_max: "max_history (add_to_history c s) = max_history s"
  by (simp add: add_to_history_def Let_def)

lemma fold_add_to_history:
  "0 < max_history s \<Longrightarrow> length (caption_history s) \<le> nat (max_history s) \<Longrightarrow>
   caption_history (fold add_to_history cs s) =
     drop (length (caption_history s @ cs) - nat (max_history s)) (caption_history s @ cs)"
proof (induction cs arbitrary: s)
  case Nil
  then show ?case by simp
next
  case (Cons c cs)
  let ?s = "add_to_history c s"
  let ?h = "caption_history s"
  let ?n = "nat (max_history s)"
  have m: "max_history ?s = max_history s" by (simp add: add_to_history_max)
  have h: "caption_history ?s = drop (length (?h @ [c]) - ?n) (?h @ [c])"
    using Cons.prems by (simp add: add_to_history_eq)
  have l: "length (caption_history ?s) \<le> nat (max_history ?s)"
    unfolding h m using Cons.prems(1) by simp
  have "caption_history (fold add_to_history (c # cs) s) =
        drop (length (caption_history ?s @ cs) - ?n) (caption_history ?s @ cs)"
    using Cons.IH[of ?s] l Cons.prems(1) by (simp add: m)
  also have "\<dots> = drop (length ((?h @ [c]) @ cs) - ?n) ((?h @ [c]) @ cs)"
    unfolding h by (rule last_n_append)
  finally show ?case by simp
qed

text \<open>
  Claim C8 (store eviction). With the bound of 100 that \<^verbatim>\<open>__init__\<close> sets, the history
  holds at most 100 captions after every insertion. Inserting 105 captions into an empty
  store leaves exactly the last 100 of them in insertion order, the first 5 dropped; and
  from any store within the bound, the history after a run of insertions is the last 100
  of everything stored and inserted.
\<close>

theorem store_eviction:
  assumes "max_history s = 100"
  shows "length (caption_history (add_to_history c s)) \<le> 100 \<and>
         (caption_history s = [] \<and> length cs = 100 + 5 \<longrightarrow>
            caption_history (fold add_to_history cs s) = drop 5 cs \<and>
            length (caption_history (fold add_to_history cs s)) = 100) \<and>
         (length (caption_history s) \<le> 100 \<longrightarrow>
            caption_history (fold add_to_history cs s) =
              drop (length (caption_history s @ cs) - 100) (caption_history s @ cs))"
proof -
  have pos: "0 < max_history s" using assms by simp
  have one: "length (caption_history (add_to_history c s)) \<le> 100"
    using assms by (simp add: add_to_history_eq[OF pos])
  have many: "caption_history (fold add_to_history cs s) =
              drop (length (caption_history s @ cs) - 100) (caption_history s @ cs)"
    if "length (caption_history s) \<le> 100"
    using fold_add_to_history[OF pos, of cs] that assms by simp
  show ?thesis using one many by auto
qed

theorem store_eviction_witness:
  "max_history init_caption_service = 100 \<and>
   caption_history init_caption_service = [] \<and>
   length (map numbered [0 ..< 105]) = 100 + 5 \<and>
   caption_history (fold add_to_history (map numbered [0 ..< 105]) init_caption_service) =
     map numbered [5 ..< 105]"
  using store_eviction [of init_caption_service "numbered 0" "map numbered [0 ..< 105]"]
  by (simp add: init_caption_service_def drop_map)

subsection \<open>The history query\<close>

text \<open>
  Claim C10 (limit of the history query). With a limit of \<^verbatim>\<open>None\<close> or 0,
  \<^verbatim>\<open>get_caption_history\<close> returns the whole history, not the empty list; with a positive
  limit k it returns the last min(k, size) captions in insertion order.
\<close>

theorem history_limit:
  "get_caption_history None s = caption_history s \<and>
   get_caption_history (Some 0) s = caption_history s \<and>
   (0 < k \<longrightarrow>
      get_caption_history (Some k) s =
        drop (length (caption_history s) - min (nat k) (length (caption_history s)))
          (caption_history s) \<and>
      length (get_caption_history (Some k) s) = min (nat k) (length (caption_history s)))"
  by (auto simp: get_caption_history_def py_slice_from_last min_def)

theorem history_limit_witness:
  "(0::int) < 2 \<and>
   get_caption_history (Some 0) (init_caption_service\<lparr>caption_history := map numbered [0, 1, 2]\<rparr>) =
     map numbered [0, 1, 2] \<and>
   get_caption_history (Some 2) (init_caption_service\<lparr>caption_history := map numbered [0, 1, 2]\<rparr>) =
     map numbered [1, 2]"
  using history_limit [of "init_caption_service\<lparr>caption_history := map numbered [0, 1, 2]\<rparr>" 2]
  by simp

subsection \<open>Translation\<close>

text \<open>
  Whenever a translation is produced, the metadata object of the caption that was passed
  in has been written to.
\<close>

lemma translate_caption_shared_metadata:
  "simulate_translation (c_text c) t \<noteq> [] \<Longrightarrow>
   heap (snd (translate_caption u n c t s)) (c_metadata c) ''translated'' = Some (MBool True)"
  by (simp add: translate_caption_def Let_def)

text \<open>
  Claim C6 (translation leaves the original unchanged). Translating the stored caption
  "Yes" into Tamil returns a new caption with the new id, the translated text and the
  target language, and the entries of the original are as before. Its metadata object is
  not: the copy shares it, and after the call it holds \<^verbatim>\<open>translated\<close> and
  \<^verbatim>\<open>original_language\<close>, which it did not hold before.
\<close>

theorem translate_writes_original_metadata:
  "heap (snd stored_yes) (c_metadata (fst stored_yes)) ''translated'' = None \<and>
   heap (snd stored_yes) (c_metadata (fst stored_yes)) ''original_language'' = None \<and>
   fst (translate_caption ''id-2'' ''2024-01-01T10:00:05'' (fst stored_yes) ''ta'' (snd stored_yes)) =
     Some ((fst stored_yes)\<lparr>c_id := ''id-2'', c_text := [2950, 2990, 3021], c_language := ''ta'',
                            c_timestamp := ''2024-01-01T10:00:05''\<rparr>) \<and>
   heap (snd (translate_caption ''id-2'' ''2024-01-01T10:00:05'' (fst stored_yes) ''ta''
                (snd stored_yes)))
     (c_metadata (fst stored_yes)) ''translated'' = Some (MBool True) \<and>
   heap (snd (translate_caption ''id-2'' ''2024-01-01T10:00:05'' (fst stored_yes) ''ta''
                (snd stored_yes)))
     (c_metadata (fst stored_yes)) ''original_language'' = Some (MStr ''en'')"
  by (simp add: stored_yes_def create_caption_def translate_caption_def Let_def
      simulate_translation_def translations_en_def translations_en_ta_def ascii_def
      add_to_history_def init_caption_service_def)

section \<open>The connection manager\<close>

lemma connect_accepted:
  "fst (connect handshake_ok w rid (st, m)) = None \<Longrightarrow>
   fst (snd (connect handshake_ok w rid (st, m))) w = CONNECTED \<and>
   room_members rid (snd (snd (connect handshake_ok w rid (st, m)))) = room_members rid m @ [w]"
  by (auto simp: connect_def accept_def Let_def room_members_def split: if_splits option.splits)

lemma connect_not_connecting:
  "st w \<noteq> CONNECTING \<Longrightarrow> connect handshake_ok w rid (st, m) = (Some Exception, st, m)"
  by (simp add: connect_def accept_def)

lemma participant_count_length: "participant_count rid m = length (room_members rid m)"
  by (simp add: participant_count_def room_members_def split: option.splits)

text \<open>
  While no channel is broken the loop does what is meant: the list is unchanged and every
  peer from the current index on, other than the excluded one, is sent the message in
  list order.
\<close>

lemma broadcast_loop_no_failure:
  "(\<And>w. w \<in> set conns \<Longrightarrow> \<not> send_raises w) \<Longrightarrow>
   broadcast_loop send_raises message ex i conns sent =
     (conns, sent @ map (\<lambda>c. (c, message)) (filter (\<lambda>c. Some c \<noteq> ex) (drop i conns)))"
proof (induction send_raises message ex i conns sent rule: broadcast_loop.induct)
  case (1 send_raises message ex i conns sent)
  show ?case
  proof (cases "i < length conns")
    case False
    then show ?thesis by (subst broadcast_loop.simps) simp
  next
    case True
    then have d: "drop i conns = conns ! i # drop (Suc i) conns"
      by (simp add: Cons_nth_drop_Suc)
    have ok: "\<not> send_raises (conns ! i)" using True "1.prems" by simp
    show ?thesis
    proof (cases "Some (conns ! i) \<noteq> ex")
      case send: True
      have "broadcast_loop send_raises message ex i conns sent =
            broadcast_loop send_raises message ex (Suc i) conns (sent @ [(conns ! i, message)])"
        using True send ok by (subst broadcast_loop.simps) (simp add: Let_def)
      also have "\<dots> = (conns, (sent @ [(conns ! i, message)]) @
                     map (\<lambda>c. (c, message)) (filter (\<lambda>c. Some c \<noteq> ex) (drop (Suc i) conns)))"
        using "1.IH"(2)[OF True refl send ok] "1.prems" by simp
      finally show ?thesis using send by (simp add: d)
    next
      case skip: False
      have "broadcast_loop send_raises message ex i conns sent =
            broadcast_loop send_raises message ex (Suc i) conns sent"
        using True skip by (subst broadcast_loop.simps) (simp add: Let_def)
      also have "\<dots> = (conns, sent @
                     map (\<lambda>c. (c, message)) (filter (\<lambda>c. Some c \<noteq> ex) (drop (Suc i) conns)))"
        using "1.IH"(3)[OF True refl skip] "1.prems" by simp
      finally show ?thesis using skip by (simp add: d)
    qed
  qed
qed

text \<open>
  Claim C2 (broadcast isolation). With peers 1, 2 and 3 in room r1, a broadcast that
  excludes peer 1 while the channel of peer 2 is broken should still reach peer 3 and
  remove peer 2. The code removes peer 2 from the list it is iterating over, so the loop
  ends before it reaches peer 3: nothing is delivered.
\<close>

theorem broadcast_skips_after_failure:
  "room_members ''r1'' three_peers = [1, 2, 3] \<and>
   snd (broadcast_to_room (only_raises 2) ''caption'' ''r1'' (Some 1) three_peers) = [] \<and>
   room_members ''r1''
     (fst (broadcast_to_room (only_raises 2) ''caption'' ''r1'' (Some 1) three_peers)) = [1, 3]"
  by (simp add: three_peers_def joined_def connect_def accept_def new_sockets_def Let_def
      init_connection_manager_def broadcast_to_room_def room_members_def only_raises_def)

text \<open>
  Claim C9 (join is idempotent). Once a peer has joined a room, joining the same peer to
  the same room a second time leaves the sockets and the manager exactly as they were
  after the first join: the second \<^verbatim>\<open>accept\<close> raises before anything is appended. The
  room lists the peer once more than before the first join, not twice, and the
  participant count is that after the first join.
\<close>

theorem join_idempotent:
  assumes "fst (connect handshake1 w rid (st, m)) = None"
  shows "connect handshake2 w rid (snd (connect handshake1 w rid (st, m))) =
           (Some Exception, snd (connect handshake1 w rid (st, m))) \<and>
         room_members rid (snd (snd (connect handshake2 w rid
                                       (snd (connect handshake1 w rid (st, m)))))) =
           room_members rid m @ [w] \<and>
         participant_count rid (snd (snd (connect handshake2 w rid
                                            (snd (connect handshake1 w rid (st, m)))))) =
           participant_count rid (snd (snd (connect handshake1 w rid (st, m))))"
proof -
  obtain st1 m1 where w1: "snd (connect handshake1 w rid (st, m)) = (st1, m1)"
    by (cases "snd (connect handshake1 w rid (st, m))")
  have acc: "st1 w = CONNECTED" and mem: "room_members rid m1 = room_members rid m @ [w]"
    using connect_accepted[OF assms] w1 by simp_all
  have "st1 w \<noteq> CONNECTING" using acc by simp
  then have second: "connect handshake2 w rid (st1, m1) = (Some Exception, st1, m1)"
    by (rule connect_not_connecting)
  show ?thesis
    unfolding w1 second using mem by simp
qed

text \<open>Peer 1 joins room r1 of the new manager twice: the room holds it once.\<close>

theorem join_idempotent_witness:
  "fst (connect True 1 ''r1'' (new_sockets, init_connection_manager)) = None \<and>
   fst (connect True 1 ''r1'' (snd (connect True 1 ''r1'' (new_sockets, init_connection_manager))))
     = Some Exception \<and>
   room_members ''r1''
     (snd (snd (connect True 1 ''r1''
                  (snd (connect True 1 ''r1'' (new_sockets, init_connection_manager)))))) = [1]"
  using join_idempotent [of True 1 "''r1''" new_sockets init_connection_manager True]
  by (simp add: connect_def accept_def new_sockets_def Let_def init_connection_manager_def
      room_members_def)

end
